theory Spec2Isabelle
  imports Complex_Main
begin

section \<open>The gripper plugin of the Swarmie rover (GripperPlugin.cpp)\<close>

text \<open>
  The plugin is embedded function by function. Numbers (\<open>float\<close>, \<open>double\<close>,
  \<open>common::Time\<close>, \<open>math::Angle\<close> in radians) are real numbers, so a narrowing
  cast such as \<open>(float)pid.x\<close> is the identity. The members \<open>model\<close> and
  \<open>sdf\<close> of the plugin object are passed to every function as arguments; the other
  members are the fields of the record \<open>GripperPlugin\<close>. \<open>exit(1)\<close> is the outcome
  \<open>Exit1\<close>; the lines written to the ROS console so far are kept in both outcomes.
\<close>

subsection \<open>Console output and process exit\<close>

datatype level = Debug | Info | Error

datatype Joint = Joint (Joint_GetName: string)

record GripperState =
  wristAngle :: real
  leftFingerAngle :: real
  rightFingerAngle :: real

record GripperForces =
  wristForce :: real
  leftFingerForce :: real
  rightFingerForce :: real

record GripperJointNames =
  wristJointName :: string
  leftFingerJointName :: string
  rightFingerJointName :: string

text \<open>
  \<open>PIDController::PIDSettings\<close>, with the fields GripperPlugin.cpp reads and writes;
  \<open>PID_min\<close> and \<open>PID_max\<close> are the fields \<open>min\<close> and \<open>max\<close>.
\<close>

record PIDSettings =
  Kp :: real
  Ki :: real
  Kd :: real
  dt :: real
  PID_min :: real
  PID_max :: real

text \<open>The texts streamed to the console, one constructor for each, with the values they print.\<close>

datatype message =
    BeginLoading
  | SetUpdatePeriod real real
  | LoadedJoints string string string
  | InitializedManager PIDSettings PIDSettings
  | BoundWorldUpdate
  | RosNotInitialized
  | InitializedNodeHandle string
  | SubscribedTopics string string
  | BoundQueueThread
  | FinishedLoading
  | Snapshot GripperState GripperState GripperForces
  | PrintDelayInvalid real
  | PrintDelayMissing
  | PrintToConsoleInvalid string
  | PrintToConsoleMissing
  | DebugTagMissing
  | UpdateRateMissing
  | UpdateRateInvalid real
  | TopicTagMissing string
  | JointNotDefined string
  | JointTagMissing string
  | PIDTagInvalid string
  | PIDMissing string
  | ForceLimitsMissing string

text \<open>A console line: its level, the model name of its prefix, and its text.\<close>

type_synonym line = "level \<times> string \<times> message"

datatype 'a outcome = Exit1 "line list" | Returns "line list" 'a

fun and_then :: "'a outcome \<Rightarrow> ('a \<Rightarrow> 'b outcome) \<Rightarrow> 'b outcome" where
  "and_then (Exit1 ls) f = Exit1 ls"
| "and_then (Returns ls x) f =
     (case f x of Exit1 ls' \<Rightarrow> Exit1 (ls @ ls') | Returns ls' y \<Rightarrow> Returns (ls @ ls') y)"

fun console :: "'a outcome \<Rightarrow> line list" where
  "console (Exit1 ls) = ls"
| "console (Returns ls x) = ls"

fun exited :: "'a outcome \<Rightarrow> bool" where
  "exited (Exit1 ls) = True"
| "exited (Returns ls x) = False"

subsection \<open>The model and the SDF element handed to the plugin\<close>

text \<open>
  What the plugin asks of \<open>physics::ModelPtr\<close> at the moment of a call: the model name,
  the joint of a name (\<open>None\<close> is the null pointer), the simulation time of the world
  and the angle of axis 0 of a joint.
\<close>

record Model =
  GetName :: string
  GetJoint :: "string \<rightharpoonup> Joint"
  GetSimTime :: real
  GetAngle :: "Joint \<Rightarrow> real"

text \<open>
  An \<open>sdf::Element\<close>: for each type \<open>T\<close> the plugin reads, the map from the tag of a
  child element to what \<open>GetElement(tag)->Get<T>()\<close> returns. The nested \<open>debug\<close>
  element is a field of the plugin's element.
\<close>

record Element =
  Get_string :: "string \<rightharpoonup> string"
  Get_float :: "string \<rightharpoonup> real"
  Get_Vector3 :: "string \<rightharpoonup> real \<times> real \<times> real"
  Get_Vector2d :: "string \<rightharpoonup> real \<times> real"

record SDF = Element +
  debug :: "Element option"

subsection \<open>The plugin object\<close>

text \<open>
  The manager type \<open>'m\<close> is a parameter: GripperManager is declared and defined
  outside GripperPlugin.cpp.
\<close>

record 'm GripperPlugin =
  previousUpdateTime :: real
  previousDebugUpdateTime :: real
  isDebuggingModeActive :: bool
  debugUpdatePeriod :: real
  updatePeriod :: real
  wristJoint :: "Joint option"
  leftFingerJoint :: "Joint option"
  rightFingerJoint :: "Joint option"
  gripperManager :: 'm
  desiredWristAngle :: real
  desiredFingerAngle :: real
  updateConnection :: bool
  rosNode :: "string option"
  wristAngleSubscriber :: "string option"
  fingerAngleSubscriber :: "string option"
  rosQueueThread :: bool

definition ROS_ERROR_STREAM :: "Model \<Rightarrow> message \<Rightarrow> line" where
  "ROS_ERROR_STREAM model m = (Error, GetName model, m)"

definition ROS_INFO_STREAM :: "Model \<Rightarrow> message \<Rightarrow> line" where
  "ROS_INFO_STREAM model m = (Info, GetName model, m)"

definition ROS_DEBUG_STREAM_COND :: "bool \<Rightarrow> Model \<Rightarrow> message \<Rightarrow> line list" where
  "ROS_DEBUG_STREAM_COND c model m = (if c then [(Debug, GetName model, m)] else [])"

subsection \<open>The subscriber callbacks\<close>

definition setWristAngleHandler :: "real \<Rightarrow> 'm GripperPlugin \<Rightarrow> 'm GripperPlugin" where
  "setWristAngleHandler msg p = p\<lparr>desiredWristAngle := msg\<rparr>"

definition setFingerAngleHandler :: "real \<Rightarrow> 'm GripperPlugin \<Rightarrow> 'm GripperPlugin" where
  "setFingerAngleHandler msg p = p\<lparr>desiredFingerAngle := msg\<rparr>"

subsection \<open>The world update handler\<close>

text \<open>
  What one call of the handler does to the world: the forces it sets on axis 0 of the
  joints and the lines it prints, in order.
\<close>

datatype effect = SetForce Joint nat real | Console line

text \<open>
  \<open>updateWorldEventHandler\<close>, with \<open>GripperManager::getForces\<close> as the parameter
  \<open>getForces\<close> (manager, desired state, current state to forces and the manager after
  the call). The result is \<open>None\<close> when the handler dereferences a null joint pointer.
\<close>

definition updateWorldEventHandler ::
  "('m \<Rightarrow> GripperState \<Rightarrow> GripperState \<Rightarrow> GripperForces \<times> 'm) \<Rightarrow> Model \<Rightarrow>
   'm GripperPlugin \<Rightarrow> (effect list \<times> 'm GripperPlugin) option" where
  "updateWorldEventHandler getForces model p =
    (let currentTime = GetSimTime model in
     if currentTime - previousUpdateTime p < updatePeriod p then Some ([], p)
     else
       let p1 = p\<lparr>previousUpdateTime := currentTime\<rparr> in
       (case (wristJoint p1, leftFingerJoint p1, rightFingerJoint p1) of
          (Some wj, Some lj, Some rj) \<Rightarrow>
            let currentState = \<lparr>wristAngle = GetAngle model wj,
                                leftFingerAngle = GetAngle model lj,
                                rightFingerAngle = GetAngle model rj\<rparr>;
                desiredState = \<lparr>wristAngle = desiredWristAngle p1,
                                leftFingerAngle = desiredFingerAngle p1 / 2,
                                rightFingerAngle = (- desiredFingerAngle p1) / 2\<rparr>;
                (commandForces, manager) = getForces (gripperManager p1) desiredState currentState;
                p2 = p1\<lparr>gripperManager := manager\<rparr>;
                forces = [SetForce wj 0 (wristForce commandForces),
                          SetForce lj 0 (leftFingerForce commandForces),
                          SetForce rj 0 (rightFingerForce commandForces)]
            in
              if currentTime - previousDebugUpdateTime p2 \<ge> debugUpdatePeriod p2
              then Some (forces @ map Console
                           (ROS_DEBUG_STREAM_COND (isDebuggingModeActive p2) model
                              (Snapshot currentState desiredState commandForces)),
                         p2\<lparr>previousDebugUpdateTime := currentTime\<rparr>)
              else Some (forces, p2)
        | _ \<Rightarrow> None))"

subsection \<open>Loading the configuration\<close>

text \<open>
  \<open>loadDebugMode\<close>. Raising the logger level to Debug (the call of
  \<open>ros::console::set_logger_level\<close>) changes no member and is left out.
\<close>

definition loadDebugMode :: "Model \<Rightarrow> SDF \<Rightarrow> 'm GripperPlugin \<Rightarrow> 'm GripperPlugin outcome" where
  "loadDebugMode model sdf p0 =
    (let p = p0\<lparr>isDebuggingModeActive := False\<rparr> in
     case debug sdf of
       Some d \<Rightarrow>
         (case Get_string d ''printToConsole'' of
            Some debugString \<Rightarrow>
              if debugString = ''true'' then
                (let p = p\<lparr>isDebuggingModeActive := True\<rparr> in
                 case Get_float d ''printDelayInSeconds'' of
                   Some v \<Rightarrow>
                     (let p = p\<lparr>debugUpdatePeriod := v\<rparr> in
                      if debugUpdatePeriod p \<le> 0
                      then Exit1 [ROS_ERROR_STREAM model (PrintDelayInvalid (debugUpdatePeriod p))]
                      else Returns [] p)
                 | None \<Rightarrow>
                     Returns [ROS_INFO_STREAM model PrintDelayMissing] (p\<lparr>debugUpdatePeriod := 3\<rparr>))
              else if debugString \<noteq> ''false''
              then Returns [ROS_INFO_STREAM model (PrintToConsoleInvalid debugString)] p
              else Returns [] p
          | None \<Rightarrow> Returns [ROS_INFO_STREAM model PrintToConsoleMissing] p)
     | None \<Rightarrow> Returns [ROS_INFO_STREAM model DebugTagMissing] p)"

definition loadUpdatePeriod :: "Model \<Rightarrow> SDF \<Rightarrow> 'm GripperPlugin \<Rightarrow> 'm GripperPlugin outcome" where
  "loadUpdatePeriod model sdf p =
    (case Get_float sdf ''updateRate'' of
       None \<Rightarrow>
         (let updateRate = 1000 in
          Returns [ROS_INFO_STREAM model UpdateRateMissing] (p\<lparr>updatePeriod := 1 / updateRate\<rparr>))
     | Some updateRate \<Rightarrow>
         if updateRate \<le> 0
         then Exit1 [ROS_ERROR_STREAM model (UpdateRateInvalid updateRate)]
         else Returns [] (p\<lparr>updatePeriod := 1 / updateRate\<rparr>))"

definition loadSubscriptionTopic :: "Model \<Rightarrow> SDF \<Rightarrow> string \<Rightarrow> string outcome" where
  "loadSubscriptionTopic model sdf topicTag =
    (case Get_string sdf topicTag of
       Some topic \<Rightarrow> Returns [] topic
     | None \<Rightarrow> Exit1 [ROS_ERROR_STREAM model (TopicTagMissing topicTag)])"

text \<open>\<open>loadJoint\<close> returns a joint pointer only when it is not null, so the result is a joint.\<close>

definition loadJoint :: "Model \<Rightarrow> SDF \<Rightarrow> string \<Rightarrow> Joint outcome" where
  "loadJoint model sdf jointTag =
    (case Get_string sdf jointTag of
       Some jointName \<Rightarrow>
         (case GetJoint model jointName of
            None \<Rightarrow> Exit1 [ROS_ERROR_STREAM model (JointNotDefined jointName)]
          | Some joint \<Rightarrow> Returns [] joint)
     | None \<Rightarrow> Exit1 [ROS_ERROR_STREAM model (JointTagMissing jointTag)])"

definition loadPIDSettings ::
  "Model \<Rightarrow> SDF \<Rightarrow> string \<Rightarrow> 'm GripperPlugin \<Rightarrow> PIDSettings outcome" where
  "loadPIDSettings model sdf PIDTag p =
    (if PIDTag \<noteq> ''wrist'' \<and> PIDTag \<noteq> ''finger''
     then Exit1 [ROS_ERROR_STREAM model (PIDTagInvalid PIDTag)]
     else
       let (ls1, pid) =
             (case Get_Vector3 sdf (PIDTag @ ''PID'') of
                None \<Rightarrow> ([ROS_INFO_STREAM model (PIDMissing PIDTag)], (5 / 2, 0, 0))
              | Some v \<Rightarrow> ([], v));
           (ls2, forceLimits) =
             (case Get_Vector2d sdf (PIDTag @ ''ForceLimits'') of
                None \<Rightarrow> ([ROS_INFO_STREAM model (ForceLimitsMissing PIDTag)], (- 10, 10))
              | Some v \<Rightarrow> ([], v))
       in Returns (ls1 @ ls2)
            \<lparr>Kp = fst pid, Ki = fst (snd pid), Kd = snd (snd pid), dt = updatePeriod p,
             PID_min = fst forceLimits, PID_max = snd forceLimits\<rparr>)"

definition print :: "line list \<Rightarrow> unit outcome" where
  "print ls = Returns ls ()"

text \<open>
  \<open>Load\<close>, with the constructor of GripperManager as the parameter \<open>GripperManager\<close>
  and the answer of \<open>ros::isInitialized()\<close> as \<open>rosInitialized\<close>. Connecting the
  handler, the node handle, the two subscriptions and the queue thread are recorded in
  the members that hold them.
\<close>

definition Load ::
  "(GripperJointNames \<Rightarrow> PIDSettings \<Rightarrow> PIDSettings \<Rightarrow> 'm outcome) \<Rightarrow> bool \<Rightarrow> Model \<Rightarrow> SDF \<Rightarrow>
   'm GripperPlugin \<Rightarrow> 'm GripperPlugin outcome" where
  "Load GripperManager rosInitialized model sdf p0 =
    (let p = p0\<lparr>previousUpdateTime := GetSimTime model,
                previousDebugUpdateTime := GetSimTime model\<rparr> in
     and_then (loadDebugMode model sdf p) (\<lambda>p.
     and_then (print (ROS_DEBUG_STREAM_COND (isDebuggingModeActive p) model BeginLoading)) (\<lambda>_.
     and_then (loadUpdatePeriod model sdf p) (\<lambda>p.
     and_then (print (ROS_DEBUG_STREAM_COND (isDebuggingModeActive p) model
                        (SetUpdatePeriod (updatePeriod p) (1 / updatePeriod p)))) (\<lambda>_.
     and_then (loadJoint model sdf ''wristJoint'') (\<lambda>wj.
     and_then (loadJoint model sdf ''leftFingerJoint'') (\<lambda>lj.
     and_then (loadJoint model sdf ''rightFingerJoint'') (\<lambda>rj.
     let p = p\<lparr>wristJoint := Some wj, leftFingerJoint := Some lj, rightFingerJoint := Some rj\<rparr> in
     and_then (print (ROS_DEBUG_STREAM_COND (isDebuggingModeActive p) model
                        (LoadedJoints (Joint_GetName wj) (Joint_GetName lj) (Joint_GetName rj)))) (\<lambda>_.
     let jointNames = \<lparr>wristJointName = GetName model @ ''_'' @ Joint_GetName wj,
                       leftFingerJointName = GetName model @ ''_'' @ Joint_GetName lj,
                       rightFingerJointName = GetName model @ ''_'' @ Joint_GetName rj\<rparr> in
     and_then (loadPIDSettings model sdf ''wrist'' p) (\<lambda>wristPID.
     and_then (loadPIDSettings model sdf ''finger'' p) (\<lambda>fingerPID.
     and_then (GripperManager jointNames wristPID fingerPID) (\<lambda>manager.
     let p = p\<lparr>gripperManager := manager\<rparr> in
     and_then (print (ROS_DEBUG_STREAM_COND (isDebuggingModeActive p) model
                        (InitializedManager wristPID fingerPID))) (\<lambda>_.
     let p = p\<lparr>updateConnection := True\<rparr> in
     and_then (print (ROS_DEBUG_STREAM_COND (isDebuggingModeActive p) model BoundWorldUpdate)) (\<lambda>_.
     if \<not> rosInitialized then Exit1 [ROS_ERROR_STREAM model RosNotInitialized]
     else
     let p = p\<lparr>rosNode := Some (GetName model @ ''_gripper'')\<rparr> in
     and_then (print (ROS_DEBUG_STREAM_COND (isDebuggingModeActive p) model
                        (InitializedNodeHandle (GetName model @ ''_gripper'')))) (\<lambda>_.
     and_then (loadSubscriptionTopic model sdf ''wristTopic'') (\<lambda>wristTopic.
     and_then (loadSubscriptionTopic model sdf ''fingerTopic'') (\<lambda>fingerTopic.
     let p = p\<lparr>wristAngleSubscriber := Some wristTopic,
                fingerAngleSubscriber := Some fingerTopic\<rparr> in
     and_then (print (ROS_DEBUG_STREAM_COND (isDebuggingModeActive p) model
                        (SubscribedTopics wristTopic fingerTopic))) (\<lambda>_.
     let p = p\<lparr>rosQueueThread := True\<rparr> in
     and_then (print (ROS_DEBUG_STREAM_COND (isDebuggingModeActive p) model BoundQueueThread)) (\<lambda>_.
     and_then (print (ROS_DEBUG_STREAM_COND (isDebuggingModeActive p) model FinishedLoading)) (\<lambda>_.
     Returns [] p))))))))))))))))))))"

subsection \<open>The PID controller and the gripper manager\<close>

text \<open>
  Modelled from the spec: PIDController (its state, its \<open>compute\<close> step and the
  clamp) is defined outside GripperPlugin.cpp. It holds the settings, the
  integral accumulator and the previous error, both 0 at the start.
\<close>

record PIDController =
  settings :: PIDSettings
  integral :: real
  previousError :: real

definition PIDController_init :: "PIDSettings \<Rightarrow> PIDController" where
  "PIDController_init s = \<lparr>settings = s, integral = 0, previousError = 0\<rparr>"

definition clamp :: "real \<Rightarrow> real \<Rightarrow> real \<Rightarrow> real" where
  "clamp raw lo hi = (if raw > hi then hi else if raw < lo then lo else raw)"

definition compute :: "PIDController \<Rightarrow> real \<Rightarrow> real \<Rightarrow> real \<times> PIDController" where
  "compute c setpoint measurement =
    (let s = settings c;
         error = setpoint - measurement;
         integral' = integral c + error * dt s;
         derivative = (error - previousError c) / dt s;
         raw = Kp s * error + Ki s * integral' + Kd s * derivative;
         output = clamp raw (PID_min s) (PID_max s)
     in (output, c\<lparr>integral := integral', previousError := error\<rparr>))"

text \<open>
  Modelled from the spec: GripperManager (its constructor and \<open>getForces\<close>) is
  defined outside GripperPlugin.cpp. It owns the joint names and three
  controllers, the finger settings serving both fingers; its construction ends the
  process when a settings object has \<open>dt \<le> 0\<close> or \<open>min > max\<close>.
\<close>

record GripperManager =
  jointNames :: GripperJointNames
  wristController :: PIDController
  leftFingerController :: PIDController
  rightFingerController :: PIDController

definition invalid :: "PIDSettings \<Rightarrow> bool" where
  "invalid s \<longleftrightarrow> dt s \<le> 0 \<or> PID_min s > PID_max s"

definition GripperManager_new ::
  "GripperJointNames \<Rightarrow> PIDSettings \<Rightarrow> PIDSettings \<Rightarrow> GripperManager outcome" where
  "GripperManager_new names wristPID fingerPID =
    (if invalid wristPID \<or> invalid fingerPID then Exit1 []
     else Returns [] \<lparr>jointNames = names,
                      wristController = PIDController_init wristPID,
                      leftFingerController = PIDController_init fingerPID,
                      rightFingerController = PIDController_init fingerPID\<rparr>)"

definition getForces ::
  "GripperManager \<Rightarrow> GripperState \<Rightarrow> GripperState \<Rightarrow> GripperForces \<times> GripperManager" where
  "getForces m desired current =
    (let (fw, cw) = compute (wristController m) (wristAngle desired) (wristAngle current);
         (fl, cl) = compute (leftFingerController m) (leftFingerAngle desired)
                      (leftFingerAngle current);
         (fr, cr) = compute (rightFingerController m) (rightFingerAngle desired)
                      (rightFingerAngle current)
     in (\<lparr>wristForce = fw, leftFingerForce = fl, rightFingerForce = fr\<rparr>,
         m\<lparr>wristController := cw, leftFingerController := cl,
           rightFingerController := cr\<rparr>))"

subsection \<open>A rover to run the plugin on\<close>

text \<open>
  A model named \<open>rover\<close> with three joints at angle 0, seen at simulation time \<open>t\<close>;
  an SDF element with every mandatory tag, one update per second and debug printing
  every half second; the plugin object before \<open>Load\<close>; and a manager that keeps the
  list of the (desired, current) pairs it was asked about and commands no force.
\<close>

definition rover :: "real \<Rightarrow> Model" where
  "rover t = \<lparr>GetName = ''rover'',
              GetJoint = [''wrist'' \<mapsto> Joint ''wrist'', ''left'' \<mapsto> Joint ''left'',
                          ''right'' \<mapsto> Joint ''right''],
              GetSimTime = t,
              GetAngle = (\<lambda>j. 0)\<rparr>"

definition rover_sdf :: SDF where
  "rover_sdf = \<lparr>Get_string = [''wristJoint'' \<mapsto> ''wrist'', ''leftFingerJoint'' \<mapsto> ''left'',
                               ''rightFingerJoint'' \<mapsto> ''right'', ''wristTopic'' \<mapsto> ''w'',
                               ''fingerTopic'' \<mapsto> ''f''],
                 Get_float = [''updateRate'' \<mapsto> 1],
                 Get_Vector3 = Map.empty,
                 Get_Vector2d = Map.empty,
                 debug = Some \<lparr>Get_string = [''printToConsole'' \<mapsto> ''true''],
                               Get_float = [''printDelayInSeconds'' \<mapsto> 1 / 2],
                               Get_Vector3 = Map.empty,
                               Get_Vector2d = Map.empty\<rparr>\<rparr>"

definition unloaded :: "'m \<Rightarrow> 'm GripperPlugin" where
  "unloaded m = \<lparr>previousUpdateTime = 0, previousDebugUpdateTime = 0,
                  isDebuggingModeActive = False, debugUpdatePeriod = 0, updatePeriod = 0,
                  wristJoint = None, leftFingerJoint = None, rightFingerJoint = None,
                  gripperManager = m, desiredWristAngle = 0, desiredFingerAngle = 0,
                  updateConnection = False, rosNode = None, wristAngleSubscriber = None,
                  fingerAngleSubscriber = None, rosQueueThread = False\<rparr>"

type_synonym recorder = "(GripperState \<times> GripperState) list"

definition recorder_new :: "GripperJointNames \<Rightarrow> PIDSettings \<Rightarrow> PIDSettings \<Rightarrow> recorder outcome" where
  "recorder_new names wristPID fingerPID = Returns [] []"

definition recorder_getForces ::
  "recorder \<Rightarrow> GripperState \<Rightarrow> GripperState \<Rightarrow> GripperForces \<times> recorder" where
  "recorder_getForces m desired current =
    (\<lparr>wristForce = 0, leftFingerForce = 0, rightFingerForce = 0\<rparr>, m @ [(desired, current)])"

text \<open>The plugin object that \<open>Load\<close> returns for this rover at time 0.\<close>

definition loaded :: "recorder GripperPlugin" where
  "loaded = \<lparr>previousUpdateTime = 0, previousDebugUpdateTime = 0,
              isDebuggingModeActive = True, debugUpdatePeriod = 1 / 2, updatePeriod = 1,
              wristJoint = Some (Joint ''wrist''), leftFingerJoint = Some (Joint ''left''),
              rightFingerJoint = Some (Joint ''right''),
              gripperManager = [], desiredWristAngle = 0, desiredFingerAngle = 0,
              updateConnection = True, rosNode = Some ''rover_gripper'',
              wristAngleSubscriber = Some ''w'', fingerAngleSubscriber = Some ''f'',
              rosQueueThread = True\<rparr>"

text \<open>
  The same manager behind a constructor that ends the process on a settings object
  with \<open>dt \<le> 0\<close>, and the settings and the manager object of a plugin before
  \<open>Load\<close> has built its GripperManager.
\<close>

definition recorder_new_checked ::
  "GripperJointNames \<Rightarrow> PIDSettings \<Rightarrow> PIDSettings \<Rightarrow> recorder outcome" where
  "recorder_new_checked names wristPID fingerPID =
    (if 0 < dt wristPID \<and> 0 < dt fingerPID then Returns [] [] else Exit1 [])"

definition unit_settings :: PIDSettings where
  "unit_settings = \<lparr>Kp = 1, Ki = 0, Kd = 0, dt = 1, PID_min = - 100, PID_max = 100\<rparr>"

definition unbuilt :: GripperManager where
  "unbuilt = \<lparr>jointNames = \<lparr>wristJointName = [], leftFingerJointName = [],
                                rightFingerJointName = []\<rparr>,
               wristController = PIDController_init unit_settings,
               leftFingerController = PIDController_init unit_settings,
               rightFingerController = PIDController_init unit_settings\<rparr>"

section \<open>Properties\<close>

subsection \<open>Sequencing and the steps of Load\<close>

lemma and_then_Returns:
  "and_then m f = Returns ls y \<longleftrightarrow>
     (\<exists>l1 x l2. m = Returns l1 x \<and> f x = Returns l2 y \<and> ls = l1 @ l2)"
  by (cases m) (auto split: outcome.splits)

lemma print_Returns: "print l = Returns ls u \<longleftrightarrow> ls = l"
  by (auto simp: print_def)

lemma not_exited: "\<not> exited m \<longleftrightarrow> (\<exists>ls x. m = Returns ls x)"
  by (cases m) auto

lemma and_then_cong_value:
  "(\<And>ls x. m = Returns ls x \<Longrightarrow> f x = g x) \<Longrightarrow> and_then m f = and_then m g"
  by (cases m) auto

text \<open>When \<open>Load\<close> returns, every step of it has returned.\<close>

lemma Load_Returns:
  assumes "Load mk ros model sdf p = Returns ls q"
  obtains l1 p1 l2 p2 lw wj ll lj lr rj lp w lf f lm m lt wt lu ft where
    "loadDebugMode model sdf (p\<lparr>previousUpdateTime := GetSimTime model,
        previousDebugUpdateTime := GetSimTime model\<rparr>) = Returns l1 p1"
    "loadUpdatePeriod model sdf p1 = Returns l2 p2"
    "loadJoint model sdf ''wristJoint'' = Returns lw wj"
    "loadJoint model sdf ''leftFingerJoint'' = Returns ll lj"
    "loadJoint model sdf ''rightFingerJoint'' = Returns lr rj"
    "loadPIDSettings model sdf ''wrist''
       (p2\<lparr>wristJoint := Some wj, leftFingerJoint := Some lj, rightFingerJoint := Some rj\<rparr>)
       = Returns lp w"
    "loadPIDSettings model sdf ''finger''
       (p2\<lparr>wristJoint := Some wj, leftFingerJoint := Some lj, rightFingerJoint := Some rj\<rparr>)
       = Returns lf f"
    "mk \<lparr>wristJointName = GetName model @ ''_'' @ Joint_GetName wj,
         leftFingerJointName = GetName model @ ''_'' @ Joint_GetName lj,
         rightFingerJointName = GetName model @ ''_'' @ Joint_GetName rj\<rparr> w f = Returns lm m"
    "ros"
    "loadSubscriptionTopic model sdf ''wristTopic'' = Returns lt wt"
    "loadSubscriptionTopic model sdf ''fingerTopic'' = Returns lu ft"
    "q = p2\<lparr>wristJoint := Some wj, leftFingerJoint := Some lj, rightFingerJoint := Some rj,
            gripperManager := m, updateConnection := True,
            rosNode := Some (GetName model @ ''_gripper''),
            wristAngleSubscriber := Some wt, fingerAngleSubscriber := Some ft,
            rosQueueThread := True\<rparr>"
  using assms unfolding Load_def Let_def
  by (simp add: and_then_Returns print_Returns split: if_splits) blast

lemma loadUpdatePeriod_Returns:
  assumes "loadUpdatePeriod model sdf p = Returns ls q"
  shows "q = p\<lparr>updatePeriod := 1 / (case Get_float sdf ''updateRate'' of None \<Rightarrow> 1000 | Some r \<Rightarrow> r)\<rparr>"
    and "0 < (case Get_float sdf ''updateRate'' of None \<Rightarrow> 1000 | Some r \<Rightarrow> r)"
  using assms by (auto simp: loadUpdatePeriod_def Let_def split: option.splits if_splits)

lemma loadPIDSettings_Returns:
  assumes "loadPIDSettings model sdf tag p = Returns ls s"
  shows "dt s = updatePeriod p"
    and "PID_min s = fst (case Get_Vector2d sdf (tag @ ''ForceLimits'') of None \<Rightarrow> (- 10, 10) | Some v \<Rightarrow> v)"
    and "PID_max s = snd (case Get_Vector2d sdf (tag @ ''ForceLimits'') of None \<Rightarrow> (- 10, 10) | Some v \<Rightarrow> v)"
  using assms by (auto simp: loadPIDSettings_def Let_def split: option.splits if_splits prod.splits)

lemma loadJoint_Returns:
  assumes "loadJoint model sdf tag = Returns ls j"
  shows "\<exists>n. Get_string sdf tag = Some n \<and> GetJoint model n = Some j"
  using assms by (auto simp: loadJoint_def split: option.splits)

lemma loadSubscriptionTopic_Returns:
  assumes "loadSubscriptionTopic model sdf tag = Returns ls t"
  shows "Get_string sdf tag = Some t"
  using assms by (auto simp: loadSubscriptionTopic_def split: option.splits)

text \<open>A plugin that \<open>Load\<close> returns has its three joints, and a positive update period.\<close>

lemma Load_joints:
  assumes "Load mk ros model sdf p = Returns ls q"
  shows "wristJoint q \<noteq> None \<and> leftFingerJoint q \<noteq> None \<and> rightFingerJoint q \<noteq> None \<and>
         0 < updatePeriod q"
proof -
  from assms obtain l2 p1 p2 wj lj rj m wt ft where
    up: "loadUpdatePeriod model sdf p1 = Returns l2 p2" and
    q: "q = p2\<lparr>wristJoint := Some wj, leftFingerJoint := Some lj, rightFingerJoint := Some rj,
            gripperManager := m, updateConnection := True,
            rosNode := Some (GetName model @ ''_gripper''),
            wristAngleSubscriber := Some wt, fingerAngleSubscriber := Some ft,
            rosQueueThread := True\<rparr>"
    by (elim Load_Returns) blast
  from loadUpdatePeriod_Returns [OF up] have "0 < updatePeriod p2" by simp
  with q show ?thesis by simp
qed

text \<open>The rover loads, at time 0, into the plugin object \<open>loaded\<close>.\<close>

lemma Load_rover:
  "\<exists>ls. Load recorder_new True (rover 0) rover_sdf (unloaded []) = Returns ls loaded"
  by (simp add: Load_def loadDebugMode_def loadUpdatePeriod_def loadJoint_def
      loadPIDSettings_def loadSubscriptionTopic_def print_def ROS_DEBUG_STREAM_COND_def
      ROS_INFO_STREAM_def rover_def rover_sdf_def unloaded_def recorder_new_def loaded_def Let_def)

text \<open>Two steps of that load, and the two constructors of the recorder on its settings.\<close>

lemma loadPIDSettings_rover:
  "loadPIDSettings (rover 0) rover_sdf ''wrist'' loaded =
    Returns [(Info, ''rover'', PIDMissing ''wrist''),
             (Info, ''rover'', ForceLimitsMissing ''wrist'')]
      \<lparr>Kp = 5 / 2, Ki = 0, Kd = 0, dt = 1, PID_min = - 10, PID_max = 10\<rparr>"
  by (simp add: loadPIDSettings_def rover_def rover_sdf_def loaded_def ROS_INFO_STREAM_def)

lemma loadUpdatePeriod_rover:
  "loadUpdatePeriod (rover 0) rover_sdf (unloaded [] :: recorder GripperPlugin) =
    Returns [] ((unloaded [])\<lparr>updatePeriod := 1\<rparr>)"
  by (simp add: loadUpdatePeriod_def rover_sdf_def)

lemma recorder_new_checked_agrees:
  "\<forall>n w f.
     dt w = 1 / (case Get_float rover_sdf ''updateRate'' of None \<Rightarrow> 1000 | Some r \<Rightarrow> r) \<and>
     dt f = dt w \<and> 0 < dt w \<longrightarrow>
     recorder_new n w f = recorder_new_checked n w f"
  by (simp add: recorder_new_def recorder_new_checked_def)

lemma rover_rate:
  "(case Get_float rover_sdf ''updateRate'' of None \<Rightarrow> 1000 | Some r \<Rightarrow> r) = 1"
  by (simp add: rover_sdf_def)

subsection \<open>The world update handler\<close>

text \<open>What a poll does when the control gate fires and the joints are loaded.\<close>

lemma updateWorldEventHandler_fires:
  assumes "updatePeriod p \<le> GetSimTime model - previousUpdateTime p"
    and "wristJoint p = Some wj" "leftFingerJoint p = Some lj" "rightFingerJoint p = Some rj"
    and "getF (gripperManager p)
      \<lparr>wristAngle = desiredWristAngle p, leftFingerAngle = desiredFingerAngle p / 2,
       rightFingerAngle = - desiredFingerAngle p / 2\<rparr>
      \<lparr>wristAngle = GetAngle model wj, leftFingerAngle = GetAngle model lj,
       rightFingerAngle = GetAngle model rj\<rparr> = (forces, m')"
  shows "updateWorldEventHandler getF model p =
    Some ([SetForce wj 0 (wristForce forces), SetForce lj 0 (leftFingerForce forces),
           SetForce rj 0 (rightFingerForce forces)] @
          (if debugUpdatePeriod p \<le> GetSimTime model - previousDebugUpdateTime p \<and>
              isDebuggingModeActive p
           then [Console (Debug, GetName model,
                   Snapshot \<lparr>wristAngle = GetAngle model wj, leftFingerAngle = GetAngle model lj,
                             rightFingerAngle = GetAngle model rj\<rparr>
                     \<lparr>wristAngle = desiredWristAngle p,
                      leftFingerAngle = desiredFingerAngle p / 2,
                      rightFingerAngle = - desiredFingerAngle p / 2\<rparr> forces)]
           else []),
          p\<lparr>previousUpdateTime := GetSimTime model, gripperManager := m',
            previousDebugUpdateTime :=
              (if debugUpdatePeriod p \<le> GetSimTime model - previousDebugUpdateTime p
               then GetSimTime model else previousDebugUpdateTime p)\<rparr>)"
  using assms
  by (simp add: updateWorldEventHandler_def Let_def ROS_DEBUG_STREAM_COND_def)

lemma updateWorldEventHandler_waits:
  assumes "GetSimTime model - previousUpdateTime p < updatePeriod p"
  shows "updateWorldEventHandler getF model p = Some ([], p)"
  using assms by (simp add: updateWorldEventHandler_def)

text \<open>A poll changes neither the joints nor the periods nor the debugging mode.\<close>

lemma updateWorldEventHandler_keeps:
  assumes "updateWorldEventHandler getF model p = Some (es, q)"
  shows "wristJoint q = wristJoint p \<and> leftFingerJoint q = leftFingerJoint p \<and>
         rightFingerJoint q = rightFingerJoint p \<and> updatePeriod q = updatePeriod p \<and>
         debugUpdatePeriod q = debugUpdatePeriod p \<and>
         isDebuggingModeActive q = isDebuggingModeActive p"
  using assms
  by (auto simp: updateWorldEventHandler_def Let_def split: if_splits option.splits prod.splits)

text \<open>
  C1. On a poll where the control gate fires, the desired state handed to the manager
  has left finger angle \<open>\<theta> / 2\<close>, right finger angle \<open>- \<theta> / 2\<close> and the wrist angle
  \<open>w\<close>, where \<open>\<theta>\<close> and \<open>w\<close> are the angles last delivered to the finger and wrist
  callbacks, in either order of delivery; the poll leaves both desired angles as they
  are. The manager and the forces of the poll are those \<open>getForces\<close> returns for
  that desired state, whatever \<open>getForces\<close> is.
\<close>

theorem finger_mirroring:
  "updatePeriod p \<le> GetSimTime model - previousUpdateTime p \<and>
   wristJoint p = Some wj \<and> leftFingerJoint p = Some lj \<and> rightFingerJoint p = Some rj \<and>
   p' \<in> {setFingerAngleHandler \<theta> (setWristAngleHandler w p),
          setWristAngleHandler w (setFingerAngleHandler \<theta> p)} \<longrightarrow>
   (\<exists>es q. updateWorldEventHandler getF model p' = Some (es, q) \<and>
      gripperManager q =
        snd (getF (gripperManager p)
               \<lparr>wristAngle = w, leftFingerAngle = \<theta> / 2, rightFingerAngle = - (\<theta> / 2)\<rparr>
               \<lparr>wristAngle = GetAngle model wj, leftFingerAngle = GetAngle model lj,
                rightFingerAngle = GetAngle model rj\<rparr>) \<and>
      desiredWristAngle q = w \<and> desiredFingerAngle q = \<theta>)"
  by (auto simp: updateWorldEventHandler_def Let_def setFingerAngleHandler_def
      setWristAngleHandler_def split: prod.splits)

theorem finger_mirroring_witness:
  "\<exists>es q. updateWorldEventHandler recorder_getForces (rover 1)
            (setFingerAngleHandler 1 (setWristAngleHandler (1 / 4) loaded)) = Some (es, q) \<and>
     gripperManager q =
       [(\<lparr>wristAngle = 1 / 4, leftFingerAngle = 1 / 2, rightFingerAngle = - (1 / 2)\<rparr>,
         \<lparr>wristAngle = 0, leftFingerAngle = 0, rightFingerAngle = 0\<rparr>)] \<and>
     desiredWristAngle q = 1 / 4 \<and> desiredFingerAngle q = 1"
  using finger_mirroring [where p = loaded and model = "rover 1" and getF = recorder_getForces
      and wj = "Joint ''wrist''" and lj = "Joint ''left''" and rj = "Joint ''right''"
      and p' = "setFingerAngleHandler 1 (setWristAngleHandler (1 / 4) loaded)"
      and \<theta> = 1 and w = "1 / 4"]
  by (simp add: loaded_def rover_def recorder_getForces_def)

text \<open>
  C2. A poll with \<open>currentTime - previousUpdateTime < updatePeriod\<close> has no effect and
  returns the plugin unchanged. A poll with \<open>updatePeriod \<le> currentTime -
  previousUpdateTime\<close> (and the three joints loaded) asks the manager once, sets the
  three forces it answers, and sets \<open>previousUpdateTime\<close> to the current time.
\<close>

theorem control_gate:
  "(GetSimTime model - previousUpdateTime p < updatePeriod p \<longrightarrow>
      updateWorldEventHandler getF model p = Some ([], p)) \<and>
   (updatePeriod p \<le> GetSimTime model - previousUpdateTime p \<and>
    wristJoint p = Some wj \<and> leftFingerJoint p = Some lj \<and> rightFingerJoint p = Some rj \<and>
    getF (gripperManager p)
      \<lparr>wristAngle = desiredWristAngle p, leftFingerAngle = desiredFingerAngle p / 2,
       rightFingerAngle = - desiredFingerAngle p / 2\<rparr>
      \<lparr>wristAngle = GetAngle model wj, leftFingerAngle = GetAngle model lj,
       rightFingerAngle = GetAngle model rj\<rparr> = (forces, m') \<longrightarrow>
      (\<exists>es q. updateWorldEventHandler getF model p = Some (es, q) \<and>
         previousUpdateTime q = GetSimTime model \<and>
         gripperManager q = m' \<and>
         [(j, a, f). SetForce j a f \<leftarrow> es] =
           [(wj, 0, wristForce forces), (lj, 0, leftFingerForce forces),
            (rj, 0, rightFingerForce forces)]))"
  by (auto simp: updateWorldEventHandler_def Let_def ROS_DEBUG_STREAM_COND_def)

theorem control_gate_witness:
  "updateWorldEventHandler recorder_getForces (rover (3 / 4)) loaded = Some ([], loaded) \<and>
   (\<exists>es q. updateWorldEventHandler recorder_getForces (rover 5) loaded = Some (es, q) \<and>
      previousUpdateTime q = 5 \<and>
      gripperManager q =
        [(\<lparr>wristAngle = 0, leftFingerAngle = 0, rightFingerAngle = 0\<rparr>,
          \<lparr>wristAngle = 0, leftFingerAngle = 0, rightFingerAngle = 0\<rparr>)] \<and>
      [(j, a, f). SetForce j a f \<leftarrow> es] =
        [(Joint ''wrist'', 0, 0), (Joint ''left'', 0, 0), (Joint ''right'', 0, 0)])"
  using control_gate [where model = "rover (3 / 4)" and p = loaded and getF = recorder_getForces]
    control_gate [where model = "rover 5" and p = loaded and getF = recorder_getForces
      and wj = "Joint ''wrist''" and lj = "Joint ''left''" and rj = "Joint ''right''"
      and forces = "\<lparr>wristForce = 0, leftFingerForce = 0, rightFingerForce = 0\<rparr>"
      and m' = "[(\<lparr>wristAngle = 0, leftFingerAngle = 0, rightFingerAngle = 0\<rparr>,
                 \<lparr>wristAngle = 0, leftFingerAngle = 0, rightFingerAngle = 0\<rparr>)]"]
  by (simp add: loaded_def rover_def recorder_getForces_def)

text \<open>
  C3, as the claim states it, fails: on the loaded rover at time 3/4 the debug period
  (1/2) has passed since the last debug time (0) and debugging is active, but the
  control period (1) has not passed, so the handler returns before the debug gate:
  nothing is printed and the debug time stays 0.
\<close>

theorem debug_gate_counterexample:
  "debugUpdatePeriod loaded \<le> GetSimTime (rover (3 / 4)) - previousDebugUpdateTime loaded \<and>
   isDebuggingModeActive loaded \<and>
   updateWorldEventHandler recorder_getForces (rover (3 / 4)) loaded = Some ([], loaded) \<and>
   previousDebugUpdateTime loaded \<noteq> GetSimTime (rover (3 / 4))"
  by (simp add: updateWorldEventHandler_def loaded_def rover_def)

text \<open>
  C3, amended. The debug gate is inside the control gate. On a poll where the control
  gate does not fire nothing is printed and the debug time is kept, whatever time has
  passed since it. On a poll where the control gate fires, the debug gate fires exactly
  when \<open>debugUpdatePeriod \<le> currentTime - previousDebugUpdateTime\<close>: it then sets the
  debug time to the current time and, when debugging mode is active, prints one
  Debug line with the current state, the desired state and the forces; otherwise the
  debug time is kept and nothing is printed.
\<close>

theorem debug_gate_nested:
  "(GetSimTime model - previousUpdateTime p < updatePeriod p \<longrightarrow>
      updateWorldEventHandler getF model p = Some ([], p)) \<and>
   (updatePeriod p \<le> GetSimTime model - previousUpdateTime p \<and>
    wristJoint p = Some wj \<and> leftFingerJoint p = Some lj \<and> rightFingerJoint p = Some rj \<and>
    desired = \<lparr>wristAngle = desiredWristAngle p, leftFingerAngle = desiredFingerAngle p / 2,
               rightFingerAngle = - desiredFingerAngle p / 2\<rparr> \<and>
    current = \<lparr>wristAngle = GetAngle model wj, leftFingerAngle = GetAngle model lj,
               rightFingerAngle = GetAngle model rj\<rparr> \<longrightarrow>
      (\<exists>es q. updateWorldEventHandler getF model p = Some (es, q) \<and>
         (if debugUpdatePeriod p \<le> GetSimTime model - previousDebugUpdateTime p
          then previousDebugUpdateTime q = GetSimTime model \<and>
               [l. Console l \<leftarrow> es] =
                 (if isDebuggingModeActive p
                  then [(Debug, GetName model,
                         Snapshot current desired (fst (getF (gripperManager p) desired current)))]
                  else [])
          else previousDebugUpdateTime q = previousDebugUpdateTime p \<and>
               [l. Console l \<leftarrow> es] = [])))"
proof (intro conjI impI)
  assume "GetSimTime model - previousUpdateTime p < updatePeriod p"
  then show "updateWorldEventHandler getF model p = Some ([], p)"
    by (rule updateWorldEventHandler_waits)
next
  assume a: "updatePeriod p \<le> GetSimTime model - previousUpdateTime p \<and>
    wristJoint p = Some wj \<and> leftFingerJoint p = Some lj \<and> rightFingerJoint p = Some rj \<and>
    desired = \<lparr>wristAngle = desiredWristAngle p, leftFingerAngle = desiredFingerAngle p / 2,
               rightFingerAngle = - desiredFingerAngle p / 2\<rparr> \<and>
    current = \<lparr>wristAngle = GetAngle model wj, leftFingerAngle = GetAngle model lj,
               rightFingerAngle = GetAngle model rj\<rparr>"
  obtain forces m' where g: "getF (gripperManager p) desired current = (forces, m')"
    by (cases "getF (gripperManager p) desired current")
  from a g have "updateWorldEventHandler getF model p =
    Some ([SetForce wj 0 (wristForce forces), SetForce lj 0 (leftFingerForce forces),
           SetForce rj 0 (rightFingerForce forces)] @
          (if debugUpdatePeriod p \<le> GetSimTime model - previousDebugUpdateTime p \<and>
              isDebuggingModeActive p
           then [Console (Debug, GetName model, Snapshot current desired forces)]
           else []),
          p\<lparr>previousUpdateTime := GetSimTime model, gripperManager := m',
            previousDebugUpdateTime :=
              (if debugUpdatePeriod p \<le> GetSimTime model - previousDebugUpdateTime p
               then GetSimTime model else previousDebugUpdateTime p)\<rparr>)"
    using updateWorldEventHandler_fires [of p model wj lj rj getF forces m'] by simp
  with g show "\<exists>es q. updateWorldEventHandler getF model p = Some (es, q) \<and>
         (if debugUpdatePeriod p \<le> GetSimTime model - previousDebugUpdateTime p
          then previousDebugUpdateTime q = GetSimTime model \<and>
               [l. Console l \<leftarrow> es] =
                 (if isDebuggingModeActive p
                  then [(Debug, GetName model,
                         Snapshot current desired (fst (getF (gripperManager p) desired current)))]
                  else [])
          else previousDebugUpdateTime q = previousDebugUpdateTime p \<and>
               [l. Console l \<leftarrow> es] = [])"
    by simp
qed

theorem debug_gate_nested_witness:
  "updateWorldEventHandler recorder_getForces (rover (3 / 4)) loaded = Some ([], loaded) \<and>
   (\<exists>es q. updateWorldEventHandler recorder_getForces (rover 1) loaded = Some (es, q) \<and>
      previousDebugUpdateTime q = 1 \<and>
      [l. Console l \<leftarrow> es] =
        [(Debug, ''rover'',
          Snapshot \<lparr>wristAngle = 0, leftFingerAngle = 0, rightFingerAngle = 0\<rparr>
            \<lparr>wristAngle = 0, leftFingerAngle = 0, rightFingerAngle = 0\<rparr>
            \<lparr>wristForce = 0, leftFingerForce = 0, rightFingerForce = 0\<rparr>)]) \<and>
   (\<exists>es q. updateWorldEventHandler recorder_getForces (rover 1)
              (loaded\<lparr>debugUpdatePeriod := 3\<rparr>) = Some (es, q) \<and>
      previousDebugUpdateTime q = 0 \<and> [l. Console l \<leftarrow> es] = [])"
  using debug_gate_nested [where model = "rover (3 / 4)" and p = loaded
      and getF = recorder_getForces]
    debug_gate_nested [where model = "rover 1" and p = loaded and getF = recorder_getForces
      and wj = "Joint ''wrist''" and lj = "Joint ''left''" and rj = "Joint ''right''"
      and desired = "\<lparr>wristAngle = 0, leftFingerAngle = 0, rightFingerAngle = 0\<rparr>"
      and current = "\<lparr>wristAngle = 0, leftFingerAngle = 0, rightFingerAngle = 0\<rparr>"]
    debug_gate_nested [where model = "rover 1" and p = "loaded\<lparr>debugUpdatePeriod := 3\<rparr>"
      and getF = recorder_getForces
      and wj = "Joint ''wrist''" and lj = "Joint ''left''" and rj = "Joint ''right''"
      and desired = "\<lparr>wristAngle = 0, leftFingerAngle = 0, rightFingerAngle = 0\<rparr>"
      and current = "\<lparr>wristAngle = 0, leftFingerAngle = 0, rightFingerAngle = 0\<rparr>"]
  by (simp add: loaded_def rover_def recorder_getForces_def)

subsection \<open>The controllers\<close>

text \<open>
  C4. The construction of the manager ends the process when either settings object
  has \<open>dt \<le> 0\<close> or \<open>min > max\<close>; and \<open>Load\<close> ends the process, so no plugin
  runs, when the wrist or the finger force limits of the configuration have
  \<open>min > max\<close>, since \<open>loadPIDSettings\<close> hands the pair to the construction as it is.
\<close>

theorem construction_fails_fast:
  "(dt wristPID \<le> 0 \<or> PID_max wristPID < PID_min wristPID \<or>
    dt fingerPID \<le> 0 \<or> PID_max fingerPID < PID_min fingerPID \<longrightarrow>
      exited (GripperManager_new names wristPID fingerPID)) \<and>
   ((tag = ''wrist'' \<or> tag = ''finger'') \<and>
    Get_Vector2d sdf (tag @ ''ForceLimits'') = Some (lo, hi) \<and> hi < lo \<longrightarrow>
      exited (Load GripperManager_new ros model sdf p))"
proof (intro conjI impI)
  assume "dt wristPID \<le> 0 \<or> PID_max wristPID < PID_min wristPID \<or>
    dt fingerPID \<le> 0 \<or> PID_max fingerPID < PID_min fingerPID"
  then show "exited (GripperManager_new names wristPID fingerPID)"
    by (auto simp: GripperManager_new_def invalid_def)
next
  assume a: "(tag = ''wrist'' \<or> tag = ''finger'') \<and>
    Get_Vector2d sdf (tag @ ''ForceLimits'') = Some (lo, hi) \<and> hi < lo"
  show "exited (Load GripperManager_new ros model sdf p)"
  proof (rule ccontr)
    assume "\<not> exited (Load GripperManager_new ros model sdf p)"
    then obtain ls q where "Load GripperManager_new ros model sdf p = Returns ls q"
      by (auto simp: not_exited)
    then obtain pj :: "GripperManager GripperPlugin" and lp w lf f lm m n where
      w: "loadPIDSettings model sdf ''wrist'' pj = Returns lp w" and
      f: "loadPIDSettings model sdf ''finger'' pj = Returns lf f" and
      m: "GripperManager_new n w f = Returns lm m"
      by (elim Load_Returns) blast
    from m have v: "\<not> invalid w" "\<not> invalid f"
      by (auto simp: GripperManager_new_def split: if_splits)
    from a loadPIDSettings_Returns(2,3) [OF w] loadPIDSettings_Returns(2,3) [OF f] v
    show False by (auto simp: invalid_def)
  qed
qed

theorem construction_fails_fast_witness:
  "exited (GripperManager_new (jointNames unbuilt) (unit_settings\<lparr>PID_min := 10, PID_max := - 10\<rparr>)
             unit_settings) \<and>
   exited (Load GripperManager_new True (rover 0)
             (rover_sdf\<lparr>Get_Vector2d := [''fingerForceLimits'' \<mapsto> (10, - 10)]\<rparr>)
             (unloaded unbuilt))"
  using construction_fails_fast [where wristPID = "unit_settings\<lparr>PID_min := 10, PID_max := - 10\<rparr>"
      and fingerPID = unit_settings and names = "jointNames unbuilt" and tag = "''finger''"
      and sdf = "rover_sdf\<lparr>Get_Vector2d := [''fingerForceLimits'' \<mapsto> (10, - 10)]\<rparr>"
      and lo = 10 and hi = "- 10" and ros = True and model = "rover 0" and p = "unloaded unbuilt"]
  by simp

text \<open>
  C5. With \<open>dt > 0\<close> and \<open>min \<le> max\<close>, the force that \<open>compute\<close> returns lies in
  \<open>[min, max]\<close> for every setpoint and measurement and every state of the controller;
  the settings are kept, so this holds at every later call as well.
\<close>

theorem compute_within_limits:
  "0 < dt (settings c) \<Longrightarrow> PID_min (settings c) \<le> PID_max (settings c) \<Longrightarrow>
   PID_min (settings c) \<le> fst (compute c setpoint measurement) \<and>
   fst (compute c setpoint measurement) \<le> PID_max (settings c) \<and>
   settings (snd (compute c setpoint measurement)) = settings c"
  by (simp add: compute_def clamp_def Let_def)

theorem compute_within_limits_witness:
  "- 100 \<le> fst (compute (PIDController_init unit_settings) 1000 0) \<and>
   fst (compute (PIDController_init unit_settings) 1000 0) \<le> 100"
  using compute_within_limits [of "PIDController_init unit_settings" 1000 0]
  by (simp add: PIDController_init_def unit_settings_def)

subsection \<open>Loading the configuration\<close>

text \<open>
  C6. \<open>loadUpdatePeriod\<close>: without an \<open>updateRate\<close> tag the period is 1/1000 and an
  Info line is printed; with a rate \<open>\<le> 0\<close> the process ends after one Error line that
  cites the rate, and so \<open>Load\<close> ends the process; with a rate \<open>> 0\<close> the period is
  1/rate.
\<close>

theorem update_rate_loading:
  "(Get_float sdf ''updateRate'' = None \<longrightarrow>
      loadUpdatePeriod model sdf p =
        Returns [(Info, GetName model, UpdateRateMissing)] (p\<lparr>updatePeriod := 1 / 1000\<rparr>)) \<and>
   (Get_float sdf ''updateRate'' = Some r \<and> r \<le> 0 \<longrightarrow>
      loadUpdatePeriod model sdf p = Exit1 [(Error, GetName model, UpdateRateInvalid r)] \<and>
      exited (Load mk ros model sdf p)) \<and>
   (Get_float sdf ''updateRate'' = Some r \<and> 0 < r \<longrightarrow>
      loadUpdatePeriod model sdf p = Returns [] (p\<lparr>updatePeriod := 1 / r\<rparr>))"
proof (intro conjI impI)
  assume a: "Get_float sdf ''updateRate'' = Some r \<and> r \<le> 0"
  show "exited (Load mk ros model sdf p)"
  proof (rule ccontr)
    assume "\<not> exited (Load mk ros model sdf p)"
    then obtain ls q where "Load mk ros model sdf p = Returns ls q"
      by (auto simp: not_exited)
    then obtain p1 l2 p2 where "loadUpdatePeriod model sdf p1 = Returns l2 (p2 :: 'a GripperPlugin)"
      by (elim Load_Returns) blast
    from loadUpdatePeriod_Returns(2) [OF this] a show False by simp
  qed
qed (simp_all add: loadUpdatePeriod_def ROS_INFO_STREAM_def ROS_ERROR_STREAM_def)

theorem update_rate_loading_witness:
  "loadUpdatePeriod (rover 0) (rover_sdf\<lparr>Get_float := Map.empty\<rparr>) loaded =
     Returns [(Info, ''rover'', UpdateRateMissing)] (loaded\<lparr>updatePeriod := 1 / 1000\<rparr>) \<and>
   loadUpdatePeriod (rover 0) (rover_sdf\<lparr>Get_float := [''updateRate'' \<mapsto> - 5]\<rparr>) loaded =
     Exit1 [(Error, ''rover'', UpdateRateInvalid (- 5))] \<and>
   exited (Load recorder_new True (rover 0) (rover_sdf\<lparr>Get_float := [''updateRate'' \<mapsto> - 5]\<rparr>)
             loaded) \<and>
   loadUpdatePeriod (rover 0) (rover_sdf\<lparr>Get_float := [''updateRate'' \<mapsto> 4]\<rparr>) loaded =
     Returns [] (loaded\<lparr>updatePeriod := 1 / 4\<rparr>)"
  using update_rate_loading [where sdf = "rover_sdf\<lparr>Get_float := Map.empty\<rparr>"
      and model = "rover 0" and p = loaded]
    update_rate_loading [where sdf = "rover_sdf\<lparr>Get_float := [''updateRate'' \<mapsto> - 5]\<rparr>"
      and model = "rover 0" and p = loaded and r = "- 5" and mk = recorder_new and ros = True]
    update_rate_loading [where sdf = "rover_sdf\<lparr>Get_float := [''updateRate'' \<mapsto> 4]\<rparr>"
      and model = "rover 0" and p = loaded and r = 4]
  by (simp add: rover_def)

text \<open>
  C7. \<open>loadPIDSettings\<close> for the wrist or the finger returns (it does not end the
  process) whatever tags are present; without the PID tag the gains are 2.5, 0, 0, and
  without the ForceLimits tag the limits are -10 and 10, each default announced by an
  Info line.
\<close>

theorem pid_defaults:
  "(tag = ''wrist'' \<or> tag = ''finger'') \<longrightarrow>
   (\<exists>ls s. loadPIDSettings model sdf tag p = Returns ls s \<and>
      (Get_Vector3 sdf (tag @ ''PID'') = None \<longrightarrow>
         Kp s = 5 / 2 \<and> Ki s = 0 \<and> Kd s = 0 \<and> (Info, GetName model, PIDMissing tag) \<in> set ls) \<and>
      (Get_Vector2d sdf (tag @ ''ForceLimits'') = None \<longrightarrow>
         PID_min s = - 10 \<and> PID_max s = 10 \<and>
         (Info, GetName model, ForceLimitsMissing tag) \<in> set ls))"
  by (auto simp: loadPIDSettings_def ROS_INFO_STREAM_def split: option.splits)

theorem pid_defaults_witness:
  "\<exists>ls s. loadPIDSettings (rover 0) rover_sdf ''finger'' loaded = Returns ls s \<and>
      Kp s = 5 / 2 \<and> Ki s = 0 \<and> Kd s = 0 \<and> (Info, ''rover'', PIDMissing ''finger'') \<in> set ls \<and>
      PID_min s = - 10 \<and> PID_max s = 10 \<and> (Info, ''rover'', ForceLimitsMissing ''finger'') \<in> set ls"
  using pid_defaults [where tag = "''finger''" and sdf = rover_sdf and model = "rover 0"
      and p = loaded]
  by (simp add: rover_sdf_def rover_def)

text \<open>
  C8. \<open>loadDebugMode\<close> reads \<open>printDelayInSeconds\<close> only when \<open>printToConsole\<close>
  is \<open>true\<close>: otherwise its result is the same whatever float tags the debug element
  has, debugging is off and the debug period is kept. When \<open>printToConsole\<close> is
  \<open>true\<close>, a missing delay gives the period 3 with an Info line, and a delay \<open>\<le> 0\<close>
  ends the process after one Error line citing it, which is then all \<open>Load\<close> does.
\<close>

theorem debug_delay_loading:
  "(Get_string d ''printToConsole'' \<noteq> Some ''true'' \<longrightarrow>
      loadDebugMode model (sdf\<lparr>debug := Some (d\<lparr>Get_float := fl\<rparr>)\<rparr>) p =
        loadDebugMode model (sdf\<lparr>debug := Some d\<rparr>) p \<and>
      (\<exists>ls. loadDebugMode model (sdf\<lparr>debug := Some d\<rparr>) p =
              Returns ls (p\<lparr>isDebuggingModeActive := False\<rparr>))) \<and>
   (debug sdf = Some d \<and> Get_string d ''printToConsole'' = Some ''true'' \<and>
    Get_float d ''printDelayInSeconds'' = None \<longrightarrow>
      loadDebugMode model sdf p =
        Returns [(Info, GetName model, PrintDelayMissing)]
          (p\<lparr>isDebuggingModeActive := True, debugUpdatePeriod := 3\<rparr>)) \<and>
   (debug sdf = Some d \<and> Get_string d ''printToConsole'' = Some ''true'' \<and>
    Get_float d ''printDelayInSeconds'' = Some v \<and> v \<le> 0 \<longrightarrow>
      loadDebugMode model sdf p = Exit1 [(Error, GetName model, PrintDelayInvalid v)] \<and>
      Load mk ros model sdf p = Exit1 [(Error, GetName model, PrintDelayInvalid v)]) \<and>
   (debug sdf = Some d \<and> Get_string d ''printToConsole'' = Some ''true'' \<and>
    Get_float d ''printDelayInSeconds'' = Some v \<and> 0 < v \<longrightarrow>
      loadDebugMode model sdf p =
        Returns [] (p\<lparr>isDebuggingModeActive := True, debugUpdatePeriod := v\<rparr>))"
  by (auto simp: loadDebugMode_def Load_def Let_def ROS_INFO_STREAM_def ROS_ERROR_STREAM_def
      split: option.splits)

theorem debug_delay_loading_witness:
  "loadDebugMode (rover 0)
     (rover_sdf\<lparr>debug := Some \<lparr>Get_string = [''printToConsole'' \<mapsto> ''false''],
        Get_float = [''printDelayInSeconds'' \<mapsto> - 1], Get_Vector3 = Map.empty,
        Get_Vector2d = Map.empty\<rparr>\<rparr>) loaded =
   loadDebugMode (rover 0)
     (rover_sdf\<lparr>debug := Some \<lparr>Get_string = [''printToConsole'' \<mapsto> ''false''],
        Get_float = Map.empty, Get_Vector3 = Map.empty, Get_Vector2d = Map.empty\<rparr>\<rparr>) loaded \<and>
   (\<exists>ls. loadDebugMode (rover 0)
     (rover_sdf\<lparr>debug := Some \<lparr>Get_string = [''printToConsole'' \<mapsto> ''false''],
        Get_float = Map.empty, Get_Vector3 = Map.empty, Get_Vector2d = Map.empty\<rparr>\<rparr>) loaded =
     Returns ls (loaded\<lparr>isDebuggingModeActive := False\<rparr>)) \<and>
   loadDebugMode (rover 0)
     (rover_sdf\<lparr>debug := Some \<lparr>Get_string = [''printToConsole'' \<mapsto> ''true''],
        Get_float = Map.empty, Get_Vector3 = Map.empty, Get_Vector2d = Map.empty\<rparr>\<rparr>)
     (unloaded []) =
     Returns [(Info, ''rover'', PrintDelayMissing)]
       ((unloaded [])\<lparr>isDebuggingModeActive := True, debugUpdatePeriod := 3\<rparr>) \<and>
   Load recorder_new True (rover 0)
     (rover_sdf\<lparr>debug := Some \<lparr>Get_string = [''printToConsole'' \<mapsto> ''true''],
        Get_float = [''printDelayInSeconds'' \<mapsto> 0], Get_Vector3 = Map.empty,
        Get_Vector2d = Map.empty\<rparr>\<rparr>) (unloaded []) =
     Exit1 [(Error, ''rover'', PrintDelayInvalid 0)] \<and>
   loadDebugMode (rover 0) rover_sdf (unloaded []) =
     Returns [] ((unloaded [])\<lparr>isDebuggingModeActive := True, debugUpdatePeriod := 1 / 2\<rparr>)"
  using debug_delay_loading [where model = "rover 0" and sdf = rover_sdf and p = loaded
      and d = "\<lparr>Get_string = [''printToConsole'' \<mapsto> ''false''], Get_float = Map.empty,
        Get_Vector3 = Map.empty, Get_Vector2d = Map.empty\<rparr>"
      and fl = "[''printDelayInSeconds'' \<mapsto> - 1]"]
    debug_delay_loading [where model = "rover 0" and p = "unloaded []"
      and sdf = "rover_sdf\<lparr>debug := Some \<lparr>Get_string = [''printToConsole'' \<mapsto> ''true''],
        Get_float = Map.empty, Get_Vector3 = Map.empty, Get_Vector2d = Map.empty\<rparr>\<rparr>"
      and d = "\<lparr>Get_string = [''printToConsole'' \<mapsto> ''true''], Get_float = Map.empty,
        Get_Vector3 = Map.empty, Get_Vector2d = Map.empty\<rparr>"]
    debug_delay_loading [where model = "rover 0" and p = "unloaded []"
      and sdf = "rover_sdf\<lparr>debug := Some \<lparr>Get_string = [''printToConsole'' \<mapsto> ''true''],
        Get_float = [''printDelayInSeconds'' \<mapsto> 0], Get_Vector3 = Map.empty,
        Get_Vector2d = Map.empty\<rparr>\<rparr>"
      and d = "\<lparr>Get_string = [''printToConsole'' \<mapsto> ''true''],
        Get_float = [''printDelayInSeconds'' \<mapsto> 0], Get_Vector3 = Map.empty,
        Get_Vector2d = Map.empty\<rparr>"
      and v = 0 and mk = recorder_new and ros = True]
    debug_delay_loading [where model = "rover 0" and p = "unloaded []" and sdf = rover_sdf
      and d = "\<lparr>Get_string = [''printToConsole'' \<mapsto> ''true''],
        Get_float = [''printDelayInSeconds'' \<mapsto> 1 / 2], Get_Vector3 = Map.empty,
        Get_Vector2d = Map.empty\<rparr>"
      and v = "1 / 2"]
  by (simp add: rover_def rover_sdf_def)

text \<open>
  C9. \<open>loadJoint\<close> ends the process after one Error line naming the tag when the tag
  is missing, and after one Error line naming the joint when the model has no joint of
  the name in the tag; \<open>loadSubscriptionTopic\<close> ends the process after one Error line
  naming the tag when the tag is missing. So \<open>Load\<close> ends the process, and returns no
  plugin, when one of the five mandatory tags is missing or one of the three joints
  cannot be found on the model.
\<close>

theorem mandatory_tags_fatal:
  "(Get_string sdf tag = None \<longrightarrow>
      loadJoint model sdf tag = Exit1 [(Error, GetName model, JointTagMissing tag)] \<and>
      loadSubscriptionTopic model sdf tag = Exit1 [(Error, GetName model, TopicTagMissing tag)]) \<and>
   (Get_string sdf tag = Some n \<and> GetJoint model n = None \<longrightarrow>
      loadJoint model sdf tag = Exit1 [(Error, GetName model, JointNotDefined n)]) \<and>
   ((tag = ''wristJoint'' \<or> tag = ''leftFingerJoint'' \<or> tag = ''rightFingerJoint'' \<or>
     tag = ''wristTopic'' \<or> tag = ''fingerTopic'') \<and> Get_string sdf tag = None \<longrightarrow>
      exited (Load mk ros model sdf p)) \<and>
   ((tag = ''wristJoint'' \<or> tag = ''leftFingerJoint'' \<or> tag = ''rightFingerJoint'') \<and>
    Get_string sdf tag = Some n \<and> GetJoint model n = None \<longrightarrow>
      exited (Load mk ros model sdf p))"
proof -
  have returned:
    "(\<exists>n j. Get_string sdf ''wristJoint'' = Some n \<and> GetJoint model n = Some j) \<and>
     (\<exists>n j. Get_string sdf ''leftFingerJoint'' = Some n \<and> GetJoint model n = Some j) \<and>
     (\<exists>n j. Get_string sdf ''rightFingerJoint'' = Some n \<and> GetJoint model n = Some j) \<and>
     (\<exists>x. Get_string sdf ''wristTopic'' = Some x) \<and>
     (\<exists>x. Get_string sdf ''fingerTopic'' = Some x)"
    if "\<not> exited (Load mk ros model sdf p)"
  proof -
    from that obtain ls q where "Load mk ros model sdf p = Returns ls q"
      by (auto simp: not_exited)
    then obtain lw wj ll lj lr rj lt wt lu ft where
      j: "loadJoint model sdf ''wristJoint'' = Returns lw wj"
      "loadJoint model sdf ''leftFingerJoint'' = Returns ll lj"
      "loadJoint model sdf ''rightFingerJoint'' = Returns lr rj" and
      t: "loadSubscriptionTopic model sdf ''wristTopic'' = Returns lt wt"
      "loadSubscriptionTopic model sdf ''fingerTopic'' = Returns lu ft"
      by (elim Load_Returns) blast
    from j [THEN loadJoint_Returns] t [THEN loadSubscriptionTopic_Returns]
    show ?thesis by blast
  qed
  show ?thesis
  proof (intro conjI impI)
    assume a: "(tag = ''wristJoint'' \<or> tag = ''leftFingerJoint'' \<or> tag = ''rightFingerJoint'' \<or>
     tag = ''wristTopic'' \<or> tag = ''fingerTopic'') \<and> Get_string sdf tag = None"
    show "exited (Load mk ros model sdf p)"
    proof (rule ccontr)
      assume "\<not> exited (Load mk ros model sdf p)"
      from returned [OF this] a show False by auto
    qed
  next
    assume a: "(tag = ''wristJoint'' \<or> tag = ''leftFingerJoint'' \<or> tag = ''rightFingerJoint'') \<and>
      Get_string sdf tag = Some n \<and> GetJoint model n = None"
    show "exited (Load mk ros model sdf p)"
    proof (rule ccontr)
      assume "\<not> exited (Load mk ros model sdf p)"
      from returned [OF this] a show False by auto
    qed
  next
    assume "Get_string sdf tag = None"
    then show "loadJoint model sdf tag = Exit1 [(Error, GetName model, JointTagMissing tag)]"
      by (simp add: loadJoint_def ROS_ERROR_STREAM_def)
  next
    assume "Get_string sdf tag = None"
    then show "loadSubscriptionTopic model sdf tag =
        Exit1 [(Error, GetName model, TopicTagMissing tag)]"
      by (simp add: loadSubscriptionTopic_def ROS_ERROR_STREAM_def)
  next
    assume "Get_string sdf tag = Some n \<and> GetJoint model n = None"
    then show "loadJoint model sdf tag = Exit1 [(Error, GetName model, JointNotDefined n)]"
      by (simp add: loadJoint_def ROS_ERROR_STREAM_def)
  qed
qed

theorem mandatory_tags_fatal_witness:
  "loadJoint (rover 0) (rover_sdf\<lparr>Get_string := Map.empty\<rparr>) ''wristJoint'' =
     Exit1 [(Error, ''rover'', JointTagMissing ''wristJoint'')] \<and>
   loadSubscriptionTopic (rover 0) (rover_sdf\<lparr>Get_string := Map.empty\<rparr>) ''wristTopic'' =
     Exit1 [(Error, ''rover'', TopicTagMissing ''wristTopic'')] \<and>
   loadJoint (rover 0) (rover_sdf\<lparr>Get_string := [''leftFingerJoint'' \<mapsto> ''thumb'']\<rparr>)
     ''leftFingerJoint'' = Exit1 [(Error, ''rover'', JointNotDefined ''thumb'')] \<and>
   exited (Load recorder_new True (rover 0)
     (rover_sdf\<lparr>Get_string := (Get_string rover_sdf)(''fingerTopic'' := None)\<rparr>) (unloaded [])) \<and>
   exited (Load recorder_new True (rover 0)
     (rover_sdf\<lparr>Get_string := (Get_string rover_sdf)(''rightFingerJoint'' \<mapsto> ''thumb'')\<rparr>)
     (unloaded []))"
proof -
  have name: "GetName (rover 0) = ''rover''" and thumb: "GetJoint (rover 0) ''thumb'' = None"
    by (simp_all add: rover_def)
  have "loadJoint (rover 0) (rover_sdf\<lparr>Get_string := Map.empty\<rparr>) ''wristJoint'' =
     Exit1 [(Error, GetName (rover 0), JointTagMissing ''wristJoint'')]"
    using mandatory_tags_fatal [where sdf = "rover_sdf\<lparr>Get_string := Map.empty\<rparr>"
      and tag = "''wristJoint''" and model = "rover 0" and mk = recorder_new and ros = True
      and p = "unloaded []"]
    by simp
  moreover have "loadSubscriptionTopic (rover 0) (rover_sdf\<lparr>Get_string := Map.empty\<rparr>)
       ''wristTopic'' = Exit1 [(Error, GetName (rover 0), TopicTagMissing ''wristTopic'')]"
    using mandatory_tags_fatal [where sdf = "rover_sdf\<lparr>Get_string := Map.empty\<rparr>"
      and tag = "''wristTopic''" and model = "rover 0" and mk = recorder_new and ros = True
      and p = "unloaded []"]
    by simp
  moreover have "loadJoint (rover 0)
       (rover_sdf\<lparr>Get_string := [''leftFingerJoint'' \<mapsto> ''thumb'']\<rparr>) ''leftFingerJoint'' =
     Exit1 [(Error, GetName (rover 0), JointNotDefined ''thumb'')]"
    using thumb mandatory_tags_fatal [where
        sdf = "rover_sdf\<lparr>Get_string := [''leftFingerJoint'' \<mapsto> ''thumb'']\<rparr>"
      and tag = "''leftFingerJoint''" and n = "''thumb''" and model = "rover 0"
      and mk = recorder_new and ros = True and p = "unloaded []"]
    by simp
  moreover have "exited (Load recorder_new True (rover 0)
     (rover_sdf\<lparr>Get_string := (Get_string rover_sdf)(''fingerTopic'' := None)\<rparr>) (unloaded []))"
    using mandatory_tags_fatal [where
      sdf = "rover_sdf\<lparr>Get_string := (Get_string rover_sdf)(''fingerTopic'' := None)\<rparr>"
      and tag = "''fingerTopic''" and model = "rover 0" and mk = recorder_new and ros = True
      and p = "unloaded []"]
    by simp
  moreover have "exited (Load recorder_new True (rover 0)
     (rover_sdf\<lparr>Get_string := (Get_string rover_sdf)(''rightFingerJoint'' \<mapsto> ''thumb'')\<rparr>)
     (unloaded []))"
    using thumb mandatory_tags_fatal [where
      sdf = "rover_sdf\<lparr>Get_string := (Get_string rover_sdf)(''rightFingerJoint'' \<mapsto> ''thumb'')\<rparr>"
      and tag = "''rightFingerJoint''" and n = "''thumb''" and model = "rover 0"
      and mk = recorder_new and ros = True and p = "unloaded []"]
    by simp
  ultimately show ?thesis by (simp only: name) 
qed

text \<open>
  C10. The settings \<open>loadPIDSettings\<close> returns have \<open>dt\<close> equal to the update period of
  the plugin; the period \<open>loadUpdatePeriod\<close> returns with is 1/rate (rate 1000 without the
  tag) and is positive, since a rate \<open>\<le> 0\<close> ends the process. So \<open>Load\<close> calls the
  constructor of the manager only with settings whose \<open>dt\<close> is that positive period:
  two constructors that agree on such settings give the same \<open>Load\<close>.
\<close>

theorem settings_dt_positive:
  "(loadPIDSettings model sdf tag p = Returns ls s \<longrightarrow> dt s = updatePeriod p) \<and>
   (loadUpdatePeriod model sdf p = Returns ls' p' \<longrightarrow>
      updatePeriod p' = 1 / (case Get_float sdf ''updateRate'' of None \<Rightarrow> 1000 | Some r \<Rightarrow> r) \<and>
      0 < updatePeriod p') \<and>
   ((\<forall>n w f. dt w = 1 / (case Get_float sdf ''updateRate'' of None \<Rightarrow> 1000 | Some r \<Rightarrow> r) \<and>
              dt f = dt w \<and> 0 < dt w \<longrightarrow> mk n w f = mk' n w f) \<longrightarrow>
      Load mk ros model sdf p = Load mk' ros model sdf p)"
proof (intro conjI impI)
  assume "loadPIDSettings model sdf tag p = Returns ls s"
  then show "dt s = updatePeriod p" by (rule loadPIDSettings_Returns)
next
  assume "loadUpdatePeriod model sdf p = Returns ls' p'"
  from loadUpdatePeriod_Returns [OF this]
  show "updatePeriod p' = 1 / (case Get_float sdf ''updateRate'' of None \<Rightarrow> 1000 | Some r \<Rightarrow> r)"
    and "0 < updatePeriod p'" by simp_all
next
  assume same: "\<forall>n w f. dt w = 1 / (case Get_float sdf ''updateRate'' of None \<Rightarrow> 1000 | Some r \<Rightarrow> r) \<and>
              dt f = dt w \<and> 0 < dt w \<longrightarrow> mk n w f = mk' n w f"
  show "Load mk ros model sdf p = Load mk' ros model sdf p"
    unfolding Load_def Let_def
    apply (rule and_then_cong_value)+
    subgoal premises prems for l1 p1 l2 u2 l3 p3 l4 u4 lw wj ll lj lr rj l8 u8 lp w lf f
    proof -
      note up = loadUpdatePeriod_Returns [OF prems(3)]
      have "dt w = updatePeriod p3" "dt f = updatePeriod p3"
        using loadPIDSettings_Returns(1) [OF prems(9)] loadPIDSettings_Returns(1) [OF prems(10)]
        by simp_all
      with up have "mk \<lparr>wristJointName = GetName model @ ''_'' @ Joint_GetName wj,
         leftFingerJointName = GetName model @ ''_'' @ Joint_GetName lj,
         rightFingerJointName = GetName model @ ''_'' @ Joint_GetName rj\<rparr> w f =
          mk' \<lparr>wristJointName = GetName model @ ''_'' @ Joint_GetName wj,
         leftFingerJointName = GetName model @ ''_'' @ Joint_GetName lj,
         rightFingerJointName = GetName model @ ''_'' @ Joint_GetName rj\<rparr> w f"
        using same by simp
      then show ?thesis by simp
    qed
    done
qed

theorem settings_dt_positive_witness:
  "dt \<lparr>Kp = 5 / 2, Ki = 0, Kd = 0, dt = 1, PID_min = - 10, PID_max = 10\<rparr> = updatePeriod loaded \<and>
   updatePeriod ((unloaded [] :: recorder GripperPlugin)\<lparr>updatePeriod := 1\<rparr>) = 1 \<and>
   0 < updatePeriod ((unloaded [] :: recorder GripperPlugin)\<lparr>updatePeriod := 1\<rparr>) \<and>
   Load recorder_new True (rover 0) rover_sdf (unloaded []) =
     Load recorder_new_checked True (rover 0) rover_sdf (unloaded [])"
proof -
  have "dt \<lparr>Kp = 5 / 2, Ki = 0, Kd = 0, dt = 1, PID_min = - 10, PID_max = 10\<rparr> =
      updatePeriod loaded \<and>
    updatePeriod ((unloaded [] :: recorder GripperPlugin)\<lparr>updatePeriod := 1\<rparr>) =
      1 / (case Get_float rover_sdf ''updateRate'' of None \<Rightarrow> 1000 | Some r \<Rightarrow> r) \<and>
    0 < updatePeriod ((unloaded [] :: recorder GripperPlugin)\<lparr>updatePeriod := 1\<rparr>) \<and>
    Load recorder_new True (rover 0) rover_sdf (unloaded []) =
      Load recorder_new_checked True (rover 0) rover_sdf (unloaded [])"
    using loadPIDSettings_rover loadUpdatePeriod_rover recorder_new_checked_agrees
      settings_dt_positive [where model = "rover 0" and sdf = rover_sdf and tag = "''wrist''"
        and p = loaded
        and ls = "[(Info, ''rover'', PIDMissing ''wrist''),
                   (Info, ''rover'', ForceLimitsMissing ''wrist'')]"
        and s = "\<lparr>Kp = 5 / 2, Ki = 0, Kd = 0, dt = 1, PID_min = - 10, PID_max = 10\<rparr>"]
      settings_dt_positive [where model = "rover 0" and sdf = rover_sdf
        and p = "unloaded [] :: recorder GripperPlugin" and ls' = "[]"
        and p' = "(unloaded [])\<lparr>updatePeriod := 1\<rparr>"]
      settings_dt_positive [where model = "rover 0" and sdf = rover_sdf and mk = recorder_new
        and mk' = recorder_new_checked and ros = True
        and p = "unloaded [] :: recorder GripperPlugin"]
    by blast
  then show ?thesis by (simp add: rover_rate)
qed

end
